theory Spec2Isabelle
  imports Complex_Main
begin

section \<open>Values shared by the services\<close>

text \<open>
  A JavaScript \<^verbatim>\<open>Error\<close> carries its message. A platform promise either resolves
  with a value or rejects with an error; which of the two happens is decided by the
  platform, so every platform call of the model takes its outcome as an argument.
\<close>

datatype error = Error string

datatype 'a outcome = Resolves 'a | Rejects error

text \<open>
  Timestamps are clock readings in milliseconds since the epoch. The source keeps them
  as the ISO-8601 text of \<^verbatim>\<open>new Date().toISOString()\<close>; the model keeps the reading
  that this text renders.
\<close>

type_synonym timestamp = int

section \<open>types/index.ts\<close>

text \<open>
  \<^verbatim>\<open>interface Reminder\<close>. The optional members \<^verbatim>\<open>description\<close>, \<^verbatim>\<open>address\<close> and
  \<^verbatim>\<open>triggeredAt\<close> are options: \<open>None\<close> stands for a missing member and for
  \<^verbatim>\<open>null\<close> alike. The member \<^verbatim>\<open>id\<close> is named \<open>ident\<close>, since \<open>id\<close> is the identity
  function of HOL.
\<close>

record Reminder =
  ident :: string
  title :: string
  description :: "string option"
  latitude :: real
  longitude :: real
  radius :: int
  address :: "string option"
  isActive :: bool
  notificationTitle :: string
  notificationBody :: string
  createdAt :: timestamp
  triggeredAt :: "timestamp option"

text \<open>\<^verbatim>\<open>interface GeofenceRegion\<close>.\<close>

record GeofenceRegion =
  region_identifier :: string
  region_latitude :: real
  region_longitude :: real
  region_radius :: int

text \<open>
  \<^verbatim>\<open>Omit<Reminder, 'id' | 'createdAt'>\<close>, the argument of \<^verbatim>\<open>addReminder\<close>.
\<close>

record NewReminder =
  new_title :: string
  new_description :: "string option"
  new_latitude :: real
  new_longitude :: real
  new_radius :: int
  new_address :: "string option"
  new_isActive :: bool
  new_notificationTitle :: string
  new_notificationBody :: string
  new_triggeredAt :: "timestamp option"

text \<open>
  \<^verbatim>\<open>Partial<Reminder>\<close>, the argument of \<^verbatim>\<open>updateReminder\<close>: every member may be
  missing, present with the value \<^verbatim>\<open>undefined\<close>, or present with a value of the
  member's type.
\<close>

datatype 'a member = Absent | Undefined | Defined 'a

record ReminderUpdates =
  upd_id :: "string member"
  upd_title :: "string member"
  upd_description :: "string member"
  upd_latitude :: "real member"
  upd_longitude :: "real member"
  upd_radius :: "int member"
  upd_address :: "string member"
  upd_isActive :: "bool member"
  upd_notificationTitle :: "string member"
  upd_notificationBody :: "string member"
  upd_createdAt :: "timestamp member"
  upd_triggeredAt :: "timestamp member"

section \<open>The table \<^verbatim>\<open>reminders\<close>\<close>

text \<open>
  One row of the table created by \<^verbatim>\<open>createTables\<close>: \<^verbatim>\<open>isActive\<close> is an integer
  column, the columns without \<^verbatim>\<open>NOT NULL\<close> are options (\<open>None\<close> is \<^verbatim>\<open>NULL\<close>).
\<close>

record row =
  col_id :: string
  col_title :: string
  col_description :: "string option"
  col_latitude :: real
  col_longitude :: real
  col_radius :: int
  col_address :: "string option"
  col_isActive :: int
  col_notificationTitle :: string
  col_notificationBody :: string
  col_createdAt :: timestamp
  col_triggeredAt :: "timestamp option"

text \<open>One \<^verbatim>\<open>column = ?\<close> of an \<^verbatim>\<open>UPDATE ... SET\<close>, with the value bound to it.\<close>

datatype assignment =
    Set_id string
  | Set_title string
  | Set_description string
  | Set_latitude real
  | Set_longitude real
  | Set_radius int
  | Set_address string
  | Set_isActive int
  | Set_notificationTitle string
  | Set_notificationBody string
  | Set_createdAt timestamp
  | Set_triggeredAt timestamp

fun apply_assignment :: "assignment \<Rightarrow> row \<Rightarrow> row" where
  "apply_assignment (Set_id v) r = r\<lparr>col_id := v\<rparr>"
| "apply_assignment (Set_title v) r = r\<lparr>col_title := v\<rparr>"
| "apply_assignment (Set_description v) r = r\<lparr>col_description := Some v\<rparr>"
| "apply_assignment (Set_latitude v) r = r\<lparr>col_latitude := v\<rparr>"
| "apply_assignment (Set_longitude v) r = r\<lparr>col_longitude := v\<rparr>"
| "apply_assignment (Set_radius v) r = r\<lparr>col_radius := v\<rparr>"
| "apply_assignment (Set_address v) r = r\<lparr>col_address := Some v\<rparr>"
| "apply_assignment (Set_isActive v) r = r\<lparr>col_isActive := v\<rparr>"
| "apply_assignment (Set_notificationTitle v) r = r\<lparr>col_notificationTitle := v\<rparr>"
| "apply_assignment (Set_notificationBody v) r = r\<lparr>col_notificationBody := v\<rparr>"
| "apply_assignment (Set_createdAt v) r = r\<lparr>col_createdAt := v\<rparr>"
| "apply_assignment (Set_triggeredAt v) r = r\<lparr>col_triggeredAt := Some v\<rparr>"

text \<open>
  The statements the service sends to SQLite. Each takes the outcome the engine gives
  it; a rejected statement leaves the table as it was. \<^verbatim>\<open>id\<close> is the primary key, so
  an \<^verbatim>\<open>INSERT\<close> of a key that is already there is rejected by the engine.
\<close>

definition sql_insert :: "unit outcome \<Rightarrow> row \<Rightarrow> row list \<Rightarrow> error + row list" where
  "sql_insert io r rows =
     (case io of
        Rejects e \<Rightarrow> Inl e
      | Resolves _ \<Rightarrow>
          if col_id r \<in> set (map col_id rows)
          then Inl (Error ''UNIQUE constraint failed: reminders.id'')
          else Inr (rows @ [r]))"

text \<open>
  \<^verbatim>\<open>SELECT * FROM reminders ORDER BY createdAt DESC\<close>: the newest first, rows of equal
  \<^verbatim>\<open>createdAt\<close> in the order of their insertion.
\<close>

definition sql_select_all :: "unit outcome \<Rightarrow> row list \<Rightarrow> error + row list" where
  "sql_select_all io rows =
     (case io of
        Rejects e \<Rightarrow> Inl e
      | Resolves _ \<Rightarrow> Inr (sort_key (\<lambda>r. - col_createdAt r) rows))"

text \<open>\<^verbatim>\<open>SELECT * FROM reminders WHERE id = ?\<close>, first row or \<^verbatim>\<open>null\<close>.\<close>

definition sql_select_by_id :: "unit outcome \<Rightarrow> string \<Rightarrow> row list \<Rightarrow> error + row option" where
  "sql_select_by_id io i rows =
     (case io of
        Rejects e \<Rightarrow> Inl e
      | Resolves _ \<Rightarrow> Inr (find (\<lambda>r. col_id r = i) rows))"

text \<open>\<^verbatim>\<open>UPDATE reminders SET ... WHERE id = ?\<close>.\<close>

definition sql_update :: "unit outcome \<Rightarrow> assignment list \<Rightarrow> string \<Rightarrow> row list \<Rightarrow> error + row list" where
  "sql_update io sets i rows =
     (case io of
        Rejects e \<Rightarrow> Inl e
      | Resolves _ \<Rightarrow>
          Inr (map (\<lambda>r. if col_id r = i then fold apply_assignment sets r else r) rows))"

text \<open>\<^verbatim>\<open>DELETE FROM reminders WHERE id = ?\<close>.\<close>

definition sql_delete :: "unit outcome \<Rightarrow> string \<Rightarrow> row list \<Rightarrow> error + row list" where
  "sql_delete io i rows =
     (case io of
        Rejects e \<Rightarrow> Inl e
      | Resolves _ \<Rightarrow> Inr (filter (\<lambda>r. col_id r \<noteq> i) rows))"

section \<open>services/DatabaseService.ts\<close>

text \<open>
  The service object: \<^verbatim>\<open>db\<close> is \<^verbatim>\<open>null\<close> until \<^verbatim>\<open>initialize\<close> has opened the
  database; an open database is the contents of its one table.
\<close>

record DatabaseService =
  db :: "row list option"

definition databaseService :: DatabaseService where
  "databaseService = \<lparr>db = None\<rparr>"

definition not_initialized :: error where
  "not_initialized = Error ''Database not initialized''"

text \<open>\<^verbatim>\<open>createTables\<close>: \<^verbatim>\<open>CREATE TABLE IF NOT EXISTS\<close> keeps the rows of an existing table.\<close>

definition createTables :: "unit outcome \<Rightarrow> DatabaseService \<Rightarrow> error + DatabaseService" where
  "createTables io s =
     (case db s of
        None \<Rightarrow> Inl not_initialized
      | Some rows \<Rightarrow> (case io of Rejects e \<Rightarrow> Inl e | Resolves _ \<Rightarrow> Inr s))"

text \<open>
  \<^verbatim>\<open>initialize\<close>: \<open>opened\<close> is the outcome of \<^verbatim>\<open>openDatabaseAsync\<close>, resolving with the
  rows already on disk. The error is rethrown after logging; the service is returned in
  both cases, since \<^verbatim>\<open>this.db\<close> stays assigned when \<^verbatim>\<open>createTables\<close> fails.
\<close>

definition initialize :: "row list outcome \<Rightarrow> unit outcome \<Rightarrow> DatabaseService \<Rightarrow> error option \<times> DatabaseService" where
  "initialize opened io s =
     (case opened of
        Rejects e \<Rightarrow> (Some e, s)
      | Resolves rows \<Rightarrow>
          (let s' = s\<lparr>db := Some rows\<rparr>
           in case createTables io s' of
                Inl e \<Rightarrow> (Some e, s')
              | Inr s'' \<Rightarrow> (None, s'')))"

subsection \<open>Decimal text of a number\<close>

definition digit_char :: "nat \<Rightarrow> char" where
  "digit_char d = ''0123456789'' ! d"

fun decimal :: "nat \<Rightarrow> string" where
  "decimal n = (if n < 10 then [digit_char n] else decimal (n div 10) @ [digit_char (n mod 10)])"

declare decimal.simps [simp del]

text \<open>\<^verbatim>\<open>Number.prototype.toString\<close> on an integer-valued number.\<close>

definition int_toString :: "int \<Rightarrow> string" where
  "int_toString k = (if k < 0 then CHR ''-'' # decimal (nat (- k)) else decimal (nat k))"

text \<open>\<^verbatim>\<open>String.prototype.substr(start, length)\<close> for non-negative arguments.\<close>

definition substr :: "nat \<Rightarrow> nat \<Rightarrow> string \<Rightarrow> string" where
  "substr start len s = take len (drop start s)"

subsection \<open>The operations\<close>

text \<open>
  \<^verbatim>\<open>addReminder\<close>. \<open>now\<close> is the reading of \<^verbatim>\<open>Date.now()\<close>, \<open>random36\<close> the text of
  \<^verbatim>\<open>Math.random().toString(36)\<close> and \<open>created\<close> the reading of \<^verbatim>\<open>new Date()\<close>.
  \<^verbatim>\<open>x || null\<close> on a text is \<^verbatim>\<open>null\<close> when the text is missing or empty.
\<close>

definition or_null :: "string option \<Rightarrow> string option" where
  "or_null v = (case v of None \<Rightarrow> None | Some s \<Rightarrow> if s = [] then None else Some s)"

definition addReminder ::
  "unit outcome \<Rightarrow> int \<Rightarrow> string \<Rightarrow> timestamp \<Rightarrow> NewReminder \<Rightarrow> DatabaseService
     \<Rightarrow> error + (string \<times> DatabaseService)" where
  "addReminder io now random36 created reminder s =
     (case db s of
        None \<Rightarrow> Inl not_initialized
      | Some rows \<Rightarrow>
          (let i = int_toString now @ substr 2 9 random36;
               r = \<lparr>col_id = i,
                    col_title = new_title reminder,
                    col_description = or_null (new_description reminder),
                    col_latitude = new_latitude reminder,
                    col_longitude = new_longitude reminder,
                    col_radius = new_radius reminder,
                    col_address = or_null (new_address reminder),
                    col_isActive = (if new_isActive reminder then 1 else 0),
                    col_notificationTitle = new_notificationTitle reminder,
                    col_notificationBody = new_notificationBody reminder,
                    col_createdAt = created,
                    col_triggeredAt = None\<rparr>
           in case sql_insert io r rows of
                Inl e \<Rightarrow> Inl e
              | Inr rows' \<Rightarrow> Inr (i, s\<lparr>db := Some rows'\<rparr>)))"

text \<open>The object literal built from a row by \<^verbatim>\<open>getAllReminders\<close> and \<^verbatim>\<open>getReminder\<close>.\<close>

definition reminder_of_row :: "row \<Rightarrow> Reminder" where
  "reminder_of_row r =
     \<lparr>ident = col_id r,
      title = col_title r,
      description = col_description r,
      latitude = col_latitude r,
      longitude = col_longitude r,
      radius = col_radius r,
      address = col_address r,
      isActive = (col_isActive r \<noteq> 0),
      notificationTitle = col_notificationTitle r,
      notificationBody = col_notificationBody r,
      createdAt = col_createdAt r,
      triggeredAt = col_triggeredAt r\<rparr>"

definition getAllReminders :: "unit outcome \<Rightarrow> DatabaseService \<Rightarrow> error + Reminder list" where
  "getAllReminders io s =
     (case db s of
        None \<Rightarrow> Inl not_initialized
      | Some rows \<Rightarrow>
          (case sql_select_all io rows of
             Inl e \<Rightarrow> Inl e
           | Inr result \<Rightarrow> Inr (map reminder_of_row result)))"

definition getReminder :: "unit outcome \<Rightarrow> string \<Rightarrow> DatabaseService \<Rightarrow> error + Reminder option" where
  "getReminder io i s =
     (case db s of
        None \<Rightarrow> Inl not_initialized
      | Some rows \<Rightarrow>
          (case sql_select_by_id io i rows of
             Inl e \<Rightarrow> Inl e
           | Inr None \<Rightarrow> Inr None
           | Inr (Some r) \<Rightarrow> Inr (Some (reminder_of_row r))))"

text \<open>
  \<^verbatim>\<open>Object.entries(updates)\<close>: one entry for each member that is present, its value
  \<open>None\<close> when the member holds \<^verbatim>\<open>undefined\<close>.
\<close>

datatype entry =
    id_entry "string option"
  | title_entry "string option"
  | description_entry "string option"
  | latitude_entry "real option"
  | longitude_entry "real option"
  | radius_entry "int option"
  | address_entry "string option"
  | isActive_entry "bool option"
  | notificationTitle_entry "string option"
  | notificationBody_entry "string option"
  | createdAt_entry "timestamp option"
  | triggeredAt_entry "timestamp option"

fun entries_of :: "('a option \<Rightarrow> entry) \<Rightarrow> 'a member \<Rightarrow> entry list" where
  "entries_of mk Absent = []"
| "entries_of mk Undefined = [mk None]"
| "entries_of mk (Defined v) = [mk (Some v)]"

definition Object_entries :: "ReminderUpdates \<Rightarrow> entry list" where
  "Object_entries u =
     entries_of id_entry (upd_id u) @
     entries_of title_entry (upd_title u) @
     entries_of description_entry (upd_description u) @
     entries_of latitude_entry (upd_latitude u) @
     entries_of longitude_entry (upd_longitude u) @
     entries_of radius_entry (upd_radius u) @
     entries_of address_entry (upd_address u) @
     entries_of isActive_entry (upd_isActive u) @
     entries_of notificationTitle_entry (upd_notificationTitle u) @
     entries_of notificationBody_entry (upd_notificationBody u) @
     entries_of createdAt_entry (upd_createdAt u) @
     entries_of triggeredAt_entry (upd_triggeredAt u)"

fun key :: "entry \<Rightarrow> string" where
  "key (id_entry _) = ''id''"
| "key (title_entry _) = ''title''"
| "key (description_entry _) = ''description''"
| "key (latitude_entry _) = ''latitude''"
| "key (longitude_entry _) = ''longitude''"
| "key (radius_entry _) = ''radius''"
| "key (address_entry _) = ''address''"
| "key (isActive_entry _) = ''isActive''"
| "key (notificationTitle_entry _) = ''notificationTitle''"
| "key (notificationBody_entry _) = ''notificationBody''"
| "key (createdAt_entry _) = ''createdAt''"
| "key (triggeredAt_entry _) = ''triggeredAt''"

text \<open>
  What one entry pushes on \<^verbatim>\<open>fields\<close> and \<^verbatim>\<open>values\<close> when its value is not
  \<^verbatim>\<open>undefined\<close>: the column named by the key, and the value, which for \<^verbatim>\<open>isActive\<close> is
  \<^verbatim>\<open>value ? 1 : 0\<close>.
\<close>

fun pushed :: "entry \<Rightarrow> assignment option" where
  "pushed (id_entry v) = map_option Set_id v"
| "pushed (title_entry v) = map_option Set_title v"
| "pushed (description_entry v) = map_option Set_description v"
| "pushed (latitude_entry v) = map_option Set_latitude v"
| "pushed (longitude_entry v) = map_option Set_longitude v"
| "pushed (radius_entry v) = map_option Set_radius v"
| "pushed (address_entry v) = map_option Set_address v"
| "pushed (isActive_entry v) = map_option (\<lambda>b. Set_isActive (if b then 1 else 0)) v"
| "pushed (notificationTitle_entry v) = map_option Set_notificationTitle v"
| "pushed (notificationBody_entry v) = map_option Set_notificationBody v"
| "pushed (createdAt_entry v) = map_option Set_createdAt v"
| "pushed (triggeredAt_entry v) = map_option Set_triggeredAt v"

text \<open>The loop of \<^verbatim>\<open>updateReminder\<close> over the entries.\<close>

fun collect :: "entry list \<Rightarrow> assignment list" where
  "collect [] = []"
| "collect (e # es) =
     (case pushed e of
        Some a \<Rightarrow> if key e \<noteq> ''id'' then a # collect es else collect es
      | None \<Rightarrow> collect es)"

definition updateReminder ::
  "unit outcome \<Rightarrow> string \<Rightarrow> ReminderUpdates \<Rightarrow> DatabaseService \<Rightarrow> error + DatabaseService" where
  "updateReminder io i updates s =
     (case db s of
        None \<Rightarrow> Inl not_initialized
      | Some rows \<Rightarrow>
          (let fields = collect (Object_entries updates)
           in if length fields = 0 then Inr s
              else case sql_update io fields i rows of
                     Inl e \<Rightarrow> Inl e
                   | Inr rows' \<Rightarrow> Inr (s\<lparr>db := Some rows'\<rparr>)))"

definition deleteReminder :: "unit outcome \<Rightarrow> string \<Rightarrow> DatabaseService \<Rightarrow> error + DatabaseService" where
  "deleteReminder io i s =
     (case db s of
        None \<Rightarrow> Inl not_initialized
      | Some rows \<Rightarrow>
          (case sql_delete io i rows of
             Inl e \<Rightarrow> Inl e
           | Inr rows' \<Rightarrow> Inr (s\<lparr>db := Some rows'\<rparr>)))"

text \<open>The object literal \<^verbatim>\<open>{ triggeredAt }\<close>.\<close>

definition no_updates :: ReminderUpdates where
  "no_updates =
     \<lparr>upd_id = Absent, upd_title = Absent, upd_description = Absent, upd_latitude = Absent,
      upd_longitude = Absent, upd_radius = Absent, upd_address = Absent, upd_isActive = Absent,
      upd_notificationTitle = Absent, upd_notificationBody = Absent, upd_createdAt = Absent,
      upd_triggeredAt = Absent\<rparr>"

text \<open>\<^verbatim>\<open>markReminderAsTriggered\<close>; \<open>now\<close> is the reading of \<^verbatim>\<open>new Date()\<close>.\<close>

definition markReminderAsTriggered ::
  "unit outcome \<Rightarrow> timestamp \<Rightarrow> string \<Rightarrow> DatabaseService \<Rightarrow> error + DatabaseService" where
  "markReminderAsTriggered io now i s =
     updateReminder io i (no_updates\<lparr>upd_triggeredAt := Defined now\<rparr>) s"

section \<open>The application around the services\<close>

text \<open>
  What the console has been given: \<^verbatim>\<open>console.log\<close> and \<^verbatim>\<open>console.warn\<close> with their
  arguments as text, \<^verbatim>\<open>console.error\<close> with its message and the error caught.
\<close>

datatype console_entry =
    console_log "string list"
  | console_warn "string list"
  | console_error string error

text \<open>
  The argument of \<^verbatim>\<open>Notifications.scheduleNotificationAsync\<close>; a \<open>trigger\<close> of
  \<open>None\<close> is \<^verbatim>\<open>null\<close>, an immediate notification.
\<close>

record NotificationRequest =
  content_title :: string
  content_body :: string
  data_reminderId :: string
  data_type :: string
  content_sound :: bool
  trigger :: "timestamp option"

text \<open>
  The state the services act on: the \<^verbatim>\<open>databaseService\<close> singleton, the flag of the
  \<^verbatim>\<open>locationService\<close> singleton, the regions the platform monitors for the geofencing
  task, the notification requests the platform has accepted, and the console.
\<close>

record world =
  database :: DatabaseService
  isLocationServicesEnabled :: bool
  monitored :: "GeofenceRegion list"
  delivered :: "NotificationRequest list"
  console :: "console_entry list"

definition print :: "console_entry \<Rightarrow> world \<Rightarrow> world" where
  "print e w = w\<lparr>console := console w @ [e]\<rparr>"

section \<open>services/NotificationService.ts\<close>

text \<open>
  The platform call: \<open>sent\<close> is its outcome, resolving with the identifier the platform
  gives the notification. A request that resolves has been accepted for delivery.
\<close>

definition scheduleNotificationAsync ::
  "string outcome \<Rightarrow> NotificationRequest \<Rightarrow> world \<Rightarrow> (error + string) \<times> world" where
  "scheduleNotificationAsync sent request w =
     (case sent of
        Rejects e \<Rightarrow> (Inl e, w)
      | Resolves notificationId \<Rightarrow> (Inr notificationId, w\<lparr>delivered := delivered w @ [request]\<rparr>))"

definition scheduleLocationNotification ::
  "string outcome \<Rightarrow> Reminder \<Rightarrow> world \<Rightarrow> (error + string) \<times> world" where
  "scheduleLocationNotification sent reminder w =
     (case scheduleNotificationAsync sent
             \<lparr>content_title = notificationTitle reminder,
              content_body = notificationBody reminder,
              data_reminderId = ident reminder,
              data_type = ''location-reminder'',
              content_sound = True,
              trigger = None\<rparr> w of
        (Inr notificationId, w') \<Rightarrow>
          (Inr notificationId, print (console_log [''Notification scheduled:'', notificationId]) w')
      | (Inl e, w') \<Rightarrow>
          (Inl e, print (console_error ''Failed to schedule notification:'' e) w'))"

section \<open>services/LocationService.ts\<close>

subsection \<open>Text helpers of the language\<close>

text \<open>
  Texts are kept as their UTF-8 bytes. White space as \<^verbatim>\<open>trim\<close> and \<^verbatim>\<open>parseInt\<close> strip
  it: tab, line feed, vertical tab, form feed, carriage return, space, and the encodings
  of U+00A0, U+1680, U+2000 to U+200A, U+2028, U+2029, U+202F, U+205F, U+3000 and U+FEFF.
  \<open>strip\<close> removes every leading occurrence of the byte sequences given; \<^verbatim>\<open>trim\<close>
  strips the white space at both ends.
\<close>

definition whitespaces :: "string list" where
  "whitespaces =
     map (\<lambda>c. [c]) [CHR 0x09, CHR 0x0A, CHR 0x0B, CHR 0x0C, CHR 0x0D, CHR 0x20]
     @ [[CHR 0xC2, CHR 0xA0], [CHR 0xE1, CHR 0x9A, CHR 0x80]]
     @ map (\<lambda>c. [CHR 0xE2, CHR 0x80, c])
         [CHR 0x80, CHR 0x81, CHR 0x82, CHR 0x83, CHR 0x84, CHR 0x85, CHR 0x86, CHR 0x87,
          CHR 0x88, CHR 0x89, CHR 0x8A, CHR 0xA8, CHR 0xA9, CHR 0xAF]
     @ [[CHR 0xE2, CHR 0x81, CHR 0x9F], [CHR 0xE3, CHR 0x80, CHR 0x80],
        [CHR 0xEF, CHR 0xBB, CHR 0xBF]]"

function strip :: "string list \<Rightarrow> string \<Rightarrow> string" where
  "strip wss s =
     (case find (\<lambda>ws. ws \<noteq> [] \<and> take (length ws) s = ws) wss of
        None \<Rightarrow> s
      | Some ws \<Rightarrow> strip wss (drop (length ws) s))"
  by pat_completeness auto
termination
proof (relation "measure (\<lambda>(wss, s). length s)")
  show "wf (measure (\<lambda>(wss, s). length s))" by simp
next
  fix wss :: "string list" and s ws :: string
  assume "find (\<lambda>ws. ws \<noteq> [] \<and> take (length ws) s = ws) wss = Some ws"
  then have "ws \<noteq> []" and t: "take (length ws) s = ws"
    by (auto simp add: find_Some_iff)
  have "length (take (length ws) s) = min (length s) (length ws)" by simp
  with t have "length ws \<le> length s" by simp
  with \<open>ws \<noteq> []\<close> show "((wss, drop (length ws) s), (wss, s)) \<in> measure (\<lambda>(wss, s). length s)"
    by (cases ws) simp_all
qed

declare strip.simps [simp del]

definition trim :: "string \<Rightarrow> string" where
  "trim s = rev (strip (map rev whitespaces) (rev (strip whitespaces s)))"

text \<open>
  \<^verbatim>\<open>Number.prototype.toFixed(f)\<close> on the exact value of a finite number below
  \<open>10\<^sup>2\<^sup>1\<close> in magnitude: the integer \<open>n\<close> with \<open>n / 10\<^sup>f\<close> nearest to the value (the
  larger one on a tie), written with at least one digit before the point and \<open>f\<close> after.
\<close>

definition toFixed :: "nat \<Rightarrow> real \<Rightarrow> string" where
  "toFixed f x =
     (let s = (if x < 0 then ''-'' else []);
          n = nat \<lfloor>\<bar>x\<bar> * 10 ^ f + 1 / 2\<rfloor>;
          m = decimal n
      in if f \<noteq> 0
         then (let m' = replicate (f + 1 - length m) CHR ''0'' @ m;
                   k = length m'
               in s @ take (k - f) m' @ ''.'' @ drop (k - f) m')
         else s @ m)"

subsection \<open>\<^verbatim>\<open>reverseGeocode\<close>\<close>

text \<open>One element of the array \<^verbatim>\<open>Location.reverseGeocodeAsync\<close> resolves with.\<close>

record LocationGeocodedAddress =
  street :: "string option"
  city :: "string option"
  region :: "string option"

text \<open>\<^verbatim>\<open>x || ''\<close> on a text that may be \<^verbatim>\<open>null\<close>.\<close>

definition or_empty :: "string option \<Rightarrow> string" where
  "or_empty v = (case v of None \<Rightarrow> [] | Some s \<Rightarrow> s)"

definition coordinates_text :: "real \<Rightarrow> real \<Rightarrow> string" where
  "coordinates_text lat lon = toFixed 6 lat @ '', '' @ toFixed 6 lon"

text \<open>The body of the \<^verbatim>\<open>try\<close>; \<open>looked_up\<close> is the outcome of the platform's lookup.\<close>

definition reverseGeocode_try ::
  "LocationGeocodedAddress list outcome \<Rightarrow> real \<Rightarrow> real \<Rightarrow> error + string" where
  "reverseGeocode_try looked_up lat lon =
     (case looked_up of
        Rejects e \<Rightarrow> Inl e
      | Resolves result \<Rightarrow>
          (case result of
             a # _ \<Rightarrow> Inr (trim (or_empty (street a) @ '' '' @ or_empty (city a) @ '' ''
                                 @ or_empty (region a)))
           | [] \<Rightarrow> Inr (coordinates_text lat lon)))"

definition reverseGeocode ::
  "LocationGeocodedAddress list outcome \<Rightarrow> real \<Rightarrow> real \<Rightarrow> world \<Rightarrow> (error + string) \<times> world" where
  "reverseGeocode looked_up lat lon w =
     (case reverseGeocode_try looked_up lat lon of
        Inr a \<Rightarrow> (Inr a, w)
      | Inl e \<Rightarrow>
          (Inr (coordinates_text lat lon), print (console_error ''Reverse geocoding failed:'' e) w))"

subsection \<open>\<^verbatim>\<open>startGeofencing\<close>\<close>

text \<open>
  \<^verbatim>\<open>Location.startGeofencingAsync(GEOFENCING_TASK_NAME, regions)\<close>: when the platform
  accepts the call, the regions monitored for the task are the ones given.
\<close>

definition startGeofencingAsync ::
  "unit outcome \<Rightarrow> GeofenceRegion list \<Rightarrow> world \<Rightarrow> (error + unit) \<times> world" where
  "startGeofencingAsync started regions w =
     (case started of
        Rejects e \<Rightarrow> (Inl e, w)
      | Resolves _ \<Rightarrow> (Inr (), w\<lparr>monitored := regions\<rparr>))"

definition region_of :: "Reminder \<Rightarrow> GeofenceRegion" where
  "region_of reminder =
     \<lparr>region_identifier = ident reminder,
      region_latitude = latitude reminder,
      region_longitude = longitude reminder,
      region_radius = radius reminder\<rparr>"

definition startGeofencing :: "unit outcome \<Rightarrow> Reminder list \<Rightarrow> world \<Rightarrow> (error + unit) \<times> world" where
  "startGeofencing started reminders w =
     (if \<not> isLocationServicesEnabled w
      then (Inr (), print (console_warn [''Location services not enabled for geofencing'']) w)
      else
        (let regions = map region_of (filter isActive reminders)
         in case startGeofencingAsync started regions w of
              (Inr _, w') \<Rightarrow>
                (Inr (), print (console_log [''Geofencing started with'', decimal (length regions),
                                             ''regions'']) w')
            | (Inl e, w') \<Rightarrow>
                (Inr (), print (console_error ''Failed to start geofencing:'' e) w')))"

subsection \<open>\<^verbatim>\<open>handleGeofenceEnter\<close>\<close>

text \<open>
  The body of the \<^verbatim>\<open>try\<close>. \<open>looked_up\<close>, \<open>sent\<close> and \<open>written\<close> are the outcomes of
  the \<^verbatim>\<open>SELECT\<close>, of the notification call and of the \<^verbatim>\<open>UPDATE\<close>; \<open>now\<close> is the clock
  reading taken by \<^verbatim>\<open>markReminderAsTriggered\<close>. A throw leaves the world as the calls
  before it have made it.
\<close>

definition handleGeofenceEnter_try ::
  "unit outcome \<Rightarrow> string outcome \<Rightarrow> unit outcome \<Rightarrow> timestamp \<Rightarrow> string \<Rightarrow> world
     \<Rightarrow> (error + unit) \<times> world" where
  "handleGeofenceEnter_try looked_up sent written now reminderId w =
     (case getReminder looked_up reminderId (database w) of
        Inl e \<Rightarrow> (Inl e, w)
      | Inr None \<Rightarrow> (Inr (), w)
      | Inr (Some reminder) \<Rightarrow>
          if isActive reminder
          then (case scheduleLocationNotification sent reminder w of
                  (Inl e, w1) \<Rightarrow> (Inl e, w1)
                | (Inr _, w1) \<Rightarrow>
                    (case markReminderAsTriggered written now reminderId (database w1) of
                       Inl e \<Rightarrow> (Inl e, w1)
                     | Inr s' \<Rightarrow>
                         (Inr (), print (console_log [''Location reminder triggered:'', title reminder])
                                    (w1\<lparr>database := s'\<rparr>))))
          else (Inr (), w))"

definition handleGeofenceEnter ::
  "unit outcome \<Rightarrow> string outcome \<Rightarrow> unit outcome \<Rightarrow> timestamp \<Rightarrow> string \<Rightarrow> world
     \<Rightarrow> (error + unit) \<times> world" where
  "handleGeofenceEnter looked_up sent written now reminderId w =
     (case handleGeofenceEnter_try looked_up sent written now reminderId w of
        (Inr u, w') \<Rightarrow> (Inr u, w')
      | (Inl e, w') \<Rightarrow> (Inr (), print (console_error ''Error handling geofence enter:'' e) w'))"

section \<open>screens/EditReminderScreen.tsx\<close>

subsection \<open>\<^verbatim>\<open>parseInt\<close>\<close>







subsection \<open>The screen\<close>







section \<open>What an update asks for\<close>

text \<open>
  The value a member of \<^verbatim>\<open>Partial<Reminder>\<close> asks for, given the value the record has:
  the member's value when it is defined, the record's own value when the member is
  missing or \<^verbatim>\<open>undefined\<close>.
\<close>

definition pick :: "'a member \<Rightarrow> 'a \<Rightarrow> 'a" where
  "pick m old = (case m of Defined v \<Rightarrow> v | Undefined \<Rightarrow> old | Absent \<Rightarrow> old)"

definition pick_optional :: "'a member \<Rightarrow> 'a option \<Rightarrow> 'a option" where
  "pick_optional m old = (case m of Defined v \<Rightarrow> Some v | Undefined \<Rightarrow> old | Absent \<Rightarrow> old)"


text \<open>
  A reminder with every member but \<^verbatim>\<open>id\<close> replaced by what the update asks for.
\<close>

definition updated :: "ReminderUpdates \<Rightarrow> Reminder \<Rightarrow> Reminder" where
  "updated u r =
     \<lparr>ident = ident r,
      title = pick (upd_title u) (title r),
      description = pick_optional (upd_description u) (description r),
      latitude = pick (upd_latitude u) (latitude r),
      longitude = pick (upd_longitude u) (longitude r),
      radius = pick (upd_radius u) (radius r),
      address = pick_optional (upd_address u) (address r),
      isActive = pick (upd_isActive u) (isActive r),
      notificationTitle = pick (upd_notificationTitle u) (notificationTitle r),
      notificationBody = pick (upd_notificationBody u) (notificationBody r),
      createdAt = pick (upd_createdAt u) (createdAt r),
      triggeredAt = pick_optional (upd_triggeredAt u) (triggeredAt r)\<rparr>"


section \<open>An example\<close>

text \<open>
  The scenario of the specification: one reminder, stored under the identifier \<open>r1\<close>,
  in an initialized service, with location services enabled and nothing monitored or
  delivered yet.
\<close>

definition example_row :: row where
  "example_row =
     \<lparr>col_id = ''r1'',
      col_title = ''Grab keys'',
      col_description = None,
      col_latitude = 37.7749,
      col_longitude = - 122.4194,
      col_radius = 50,
      col_address = None,
      col_isActive = 1,
      col_notificationTitle = ''Do not forget!'',
      col_notificationBody = ''Grab your keys'',
      col_createdAt = 1700000000000,
      col_triggeredAt = None\<rparr>"

definition example_reminder :: Reminder where
  "example_reminder =
     \<lparr>ident = ''r1'',
      title = ''Grab keys'',
      description = None,
      latitude = 37.7749,
      longitude = - 122.4194,
      radius = 50,
      address = None,
      isActive = True,
      notificationTitle = ''Do not forget!'',
      notificationBody = ''Grab your keys'',
      createdAt = 1700000000000,
      triggeredAt = None\<rparr>"

definition example_store :: DatabaseService where
  "example_store = \<lparr>db = Some [example_row]\<rparr>"

definition example_world :: world where
  "example_world =
     \<lparr>database = example_store,
      isLocationServicesEnabled = True,
      monitored = [],
      delivered = [],
      console = []\<rparr>"

text \<open>The fields the reminder of the example was created from.\<close>

definition example_new :: NewReminder where
  "example_new =
     \<lparr>new_title = ''Grab keys'',
      new_description = None,
      new_latitude = 37.7749,
      new_longitude = - 122.4194,
      new_radius = 50,
      new_address = None,
      new_isActive = True,
      new_notificationTitle = ''Do not forget!'',
      new_notificationBody = ''Grab your keys'',
      new_triggeredAt = None\<rparr>"

text \<open>The example after its reminder has triggered once.\<close>

definition triggered_store :: DatabaseService where
  "triggered_store = \<lparr>db = Some [example_row\<lparr>col_triggeredAt := Some 1700000005000\<rparr>]\<rparr>"

text \<open>
  Three variations of the example: its reminder switched off, the service not yet
  initialized, and location services not enabled.
\<close>

definition inactive_world :: world where
  "inactive_world = example_world\<lparr>database := \<lparr>db = Some [example_row\<lparr>col_isActive := 0\<rparr>]\<rparr>\<rparr>"

definition cold_world :: world where
  "cold_world = example_world\<lparr>database := databaseService\<rparr>"

definition disabled_world :: world where
  "disabled_world = example_world\<lparr>isLocationServicesEnabled := False\<rparr>"



section \<open>Sequences of calls on the store\<close>

text \<open>
  The calls of the service that write, with their arguments and the outcome the engine
  gives their statement; the effect of one call and of a sequence of calls, which a
  throw ends; and whether a call is the deletion of the record \<open>i\<close>.
\<close>

datatype store_call =
    Add "unit outcome" int string timestamp NewReminder
  | Update "unit outcome" string ReminderUpdates
  | Delete "unit outcome" string
  | MarkTriggered "unit outcome" timestamp string

fun perform :: "store_call \<Rightarrow> DatabaseService \<Rightarrow> error + DatabaseService" where
  "perform (Add io now random36 created reminder) s =
     map_sum id snd (addReminder io now random36 created reminder s)"
| "perform (Update io i updates) s = updateReminder io i updates s"
| "perform (Delete io i) s = deleteReminder io i s"
| "perform (MarkTriggered io now i) s = markReminderAsTriggered io now i s"

fun perform_all :: "store_call list \<Rightarrow> DatabaseService \<Rightarrow> error + DatabaseService" where
  "perform_all [] s = Inr s"
| "perform_all (c # cs) s = (case perform c s of Inl e \<Rightarrow> Inl e | Inr s' \<Rightarrow> perform_all cs s')"

fun deletes :: "string \<Rightarrow> store_call \<Rightarrow> bool" where
  "deletes i (Delete io j) = (j = i)"
| "deletes i c = False"

section \<open>Facts about the store\<close>

subsection \<open>What \<^verbatim>\<open>updateReminder\<close> does to a row\<close>

lemma collect_append: "collect (xs @ ys) = collect xs @ collect ys"
  by (induction xs) (simp_all split: option.splits)

lemma set_id: "fold apply_assignment (collect (entries_of id_entry m)) r = r"
  by (cases m) simp_all

lemma set_title:
  "fold apply_assignment (collect (entries_of title_entry m)) r = r\<lparr>col_title := pick m (col_title r)\<rparr>"
  by (cases m) (simp_all add: pick_def)

lemma set_description:
  "fold apply_assignment (collect (entries_of description_entry m)) r
     = r\<lparr>col_description := pick_optional m (col_description r)\<rparr>"
  by (cases m) (simp_all add: pick_optional_def)

lemma set_latitude:
  "fold apply_assignment (collect (entries_of latitude_entry m)) r
     = r\<lparr>col_latitude := pick m (col_latitude r)\<rparr>"
  by (cases m) (simp_all add: pick_def)

lemma set_longitude:
  "fold apply_assignment (collect (entries_of longitude_entry m)) r
     = r\<lparr>col_longitude := pick m (col_longitude r)\<rparr>"
  by (cases m) (simp_all add: pick_def)

lemma set_radius:
  "fold apply_assignment (collect (entries_of radius_entry m)) r
     = r\<lparr>col_radius := pick m (col_radius r)\<rparr>"
  by (cases m) (simp_all add: pick_def)

lemma set_address:
  "fold apply_assignment (collect (entries_of address_entry m)) r
     = r\<lparr>col_address := pick_optional m (col_address r)\<rparr>"
  by (cases m) (simp_all add: pick_optional_def)

lemma set_isActive:
  "fold apply_assignment (collect (entries_of isActive_entry m)) r
     = r\<lparr>col_isActive := pick (map_member (\<lambda>b. if b then 1 else 0) m) (col_isActive r)\<rparr>"
  by (cases m) (simp_all add: pick_def)

lemma set_notificationTitle:
  "fold apply_assignment (collect (entries_of notificationTitle_entry m)) r
     = r\<lparr>col_notificationTitle := pick m (col_notificationTitle r)\<rparr>"
  by (cases m) (simp_all add: pick_def)

lemma set_notificationBody:
  "fold apply_assignment (collect (entries_of notificationBody_entry m)) r
     = r\<lparr>col_notificationBody := pick m (col_notificationBody r)\<rparr>"
  by (cases m) (simp_all add: pick_def)

lemma set_createdAt:
  "fold apply_assignment (collect (entries_of createdAt_entry m)) r
     = r\<lparr>col_createdAt := pick m (col_createdAt r)\<rparr>"
  by (cases m) (simp_all add: pick_def)

lemma set_triggeredAt:
  "fold apply_assignment (collect (entries_of triggeredAt_entry m)) r
     = r\<lparr>col_triggeredAt := pick_optional m (col_triggeredAt r)\<rparr>"
  by (cases m) (simp_all add: pick_optional_def)

lemmas set_member = set_id set_title set_description set_latitude set_longitude set_radius
  set_address set_isActive set_notificationTitle set_notificationBody set_createdAt set_triggeredAt

lemma update_row:
  "fold apply_assignment (collect (Object_entries u)) r =
     r\<lparr>col_title := pick (upd_title u) (col_title r),
       col_description := pick_optional (upd_description u) (col_description r),
       col_latitude := pick (upd_latitude u) (col_latitude r),
       col_longitude := pick (upd_longitude u) (col_longitude r),
       col_radius := pick (upd_radius u) (col_radius r),
       col_address := pick_optional (upd_address u) (col_address r),
       col_isActive := pick (map_member (\<lambda>b. if b then 1 else 0) (upd_isActive u)) (col_isActive r),
       col_notificationTitle := pick (upd_notificationTitle u) (col_notificationTitle r),
       col_notificationBody := pick (upd_notificationBody u) (col_notificationBody r),
       col_createdAt := pick (upd_createdAt u) (col_createdAt r),
       col_triggeredAt := pick_optional (upd_triggeredAt u) (col_triggeredAt r)\<rparr>"
  unfolding Object_entries_def collect_append fold_append comp_def set_member
  by simp

lemma update_row_id: "col_id (fold apply_assignment (collect (Object_entries u)) r) = col_id r"
  by (simp add: update_row)

lemma pick_isActive:
  "(pick (map_member (\<lambda>b. if b then 1 else 0) m) (k::int) \<noteq> 0) = pick m (k \<noteq> 0)"
  by (cases m) (simp_all add: pick_def)

lemma update_reminder:
  "reminder_of_row (fold apply_assignment (collect (Object_entries u)) r) = updated u (reminder_of_row r)"
  unfolding update_row
  by (simp add: reminder_of_row_def updated_def pick_isActive)

subsection \<open>Reading after writing\<close>

lemma find_update:
  assumes "\<And>r. col_id (f r) = col_id r"
  shows "find (\<lambda>r. col_id r = j) (map (\<lambda>r. if col_id r = i then f r else r) rows)
           = map_option (\<lambda>r. if col_id r = i then f r else r) (find (\<lambda>r. col_id r = j) rows)"
  by (induction rows) (simp_all add: assms)

lemma getReminder_find:
  "db s = Some rows \<Longrightarrow>
     getReminder (Resolves ()) j s = Inr (map_option reminder_of_row (find (\<lambda>r. col_id r = j) rows))"
  by (simp add: getReminder_def sql_select_by_id_def split: option.splits)

lemma find_id: "find (\<lambda>r. col_id r = j) rows = Some r \<Longrightarrow> col_id r = j"
  by (induction rows) (simp_all split: if_splits)

lemma updateReminder_rows:
  assumes "db s = Some rows"
  shows "updateReminder (Resolves ()) i u s =
           Inr (s\<lparr>db := Some (map (\<lambda>r. if col_id r = i
                                         then fold apply_assignment (collect (Object_entries u)) r
                                         else r) rows)\<rparr>)"
proof (cases "collect (Object_entries u) = []")
  case True
  have "map (\<lambda>r. if col_id r = i then fold apply_assignment (collect (Object_entries u)) r else r) rows
          = rows"
    by (simp add: True cong: if_cong)
  moreover have "s\<lparr>db := Some rows\<rparr> = s"
    using assms by (cases s) simp
  ultimately show ?thesis
    using assms True by (simp add: updateReminder_def)
next
  case False
  then show ?thesis
    using assms by (simp add: updateReminder_def sql_update_def Let_def)
qed

lemma getReminder_updateReminder:
  assumes "db s = Some rows" and "updateReminder (Resolves ()) i u s = Inr s'"
  shows "getReminder (Resolves ()) j s' =
           map_sum id (map_option (\<lambda>r. if j = i then updated u r else r)) (getReminder (Resolves ()) j s)"
proof -
  let ?f = "fold apply_assignment (collect (Object_entries u))"
  let ?rows' = "map (\<lambda>r. if col_id r = i then ?f r else r) rows"
  have s': "s' = s\<lparr>db := Some ?rows'\<rparr>"
    using assms updateReminder_rows [OF assms(1), of i u] by simp
  then have db': "db s' = Some ?rows'" by simp
  have id: "\<And>r. col_id (?f r) = col_id r" by (rule update_row_id)
  show ?thesis
  proof (cases "find (\<lambda>r. col_id r = j) rows")
    case None
    then show ?thesis
      by (simp add: getReminder_find [OF db'] getReminder_find [OF assms(1)] find_update [of ?f, OF id])
  next
    case (Some r)
    then have "col_id r = j" by (rule find_id)
    with Some show ?thesis
      by (simp add: getReminder_find [OF db'] getReminder_find [OF assms(1)] find_update [of ?f, OF id]
          update_reminder)
  qed
qed



lemma example_get: "getReminder (Resolves ()) ''r1'' example_store = Inr (Some example_reminder)"
  by (simp add: getReminder_def sql_select_by_id_def example_store_def example_row_def
      example_reminder_def reminder_of_row_def)

lemma updateReminder_io:
  "updateReminder io j u s = Inr s' \<Longrightarrow> updateReminder (Resolves ()) j u s = Inr s'"
  by (cases io) (auto simp add: updateReminder_def sql_update_def Let_def split: option.splits if_splits)

lemma getReminder_db:
  "getReminder io i s = Inr x \<Longrightarrow> \<exists>rows. db s = Some rows"
  by (cases "db s") (simp_all add: getReminder_def not_initialized_def)

lemma find_append_first:
  "find P xs = Some x \<Longrightarrow> find P (xs @ ys) = Some x"
  by (induction xs) (simp_all split: if_splits)

lemma find_append_second:
  "find P xs = None \<Longrightarrow> find P (xs @ ys) = find P ys"
  by (induction xs) (simp_all split: if_splits)

lemma find_filter_other:
  "j \<noteq> i \<Longrightarrow> find (\<lambda>r. col_id r = i) (filter (\<lambda>r. col_id r \<noteq> j) rows) = find (\<lambda>r. col_id r = i) rows"
  by (induction rows) auto

lemma getReminder_Some_find:
  assumes "db s = Some rows" and "getReminder (Resolves ()) i s = Inr (Some r)"
  shows "\<exists>x. find (\<lambda>r. col_id r = i) rows = Some x \<and> r = reminder_of_row x"
  using assms by (auto simp add: getReminder_find)

lemma getReminder_addReminder:
  assumes "getReminder (Resolves ()) i s = Inr (Some r)"
    and "addReminder io now random36 created n s = Inr (j, s')"
  shows "getReminder (Resolves ()) i s' = Inr (Some r)"
proof -
  obtain rows where rows: "db s = Some rows"
    using getReminder_db [OF assms(1)] by blast
  obtain x where x: "find (\<lambda>r. col_id r = i) rows = Some x" "r = reminder_of_row x"
    using getReminder_Some_find [OF rows assms(1)] by blast
  obtain new where "db s' = Some (rows @ [new])"
    using assms(2) rows
    by (cases io) (auto simp add: addReminder_def sql_insert_def Let_def split: if_splits)
  then show ?thesis
    using x by (simp add: getReminder_find find_append_first)
qed

lemma getReminder_deleteReminder:
  assumes "getReminder (Resolves ()) i s = Inr (Some r)"
    and "deleteReminder io j s = Inr s'" and "j \<noteq> i"
  shows "getReminder (Resolves ()) i s' = Inr (Some r)"
proof -
  obtain rows where rows: "db s = Some rows"
    using getReminder_db [OF assms(1)] by blast
  have "db s' = Some (filter (\<lambda>r. col_id r \<noteq> j) rows)"
    using assms(2) rows
    by (cases io) (auto simp add: deleteReminder_def sql_delete_def)
  then show ?thesis
    using assms(1,3) rows by (simp add: getReminder_find find_filter_other)
qed

lemma triggeredAt_updateReminder:
  assumes "getReminder (Resolves ()) i s = Inr (Some r)"
    and "updateReminder io j u s = Inr s'"
  shows "\<exists>r'. getReminder (Resolves ()) i s' = Inr (Some r')
           \<and> triggeredAt r' = (if i = j then pick_optional (upd_triggeredAt u) (triggeredAt r)
                                else triggeredAt r)"
proof -
  obtain rows where rows: "db s = Some rows"
    using getReminder_db [OF assms(1)] by blast
  have "getReminder (Resolves ()) i s' =
          map_sum id (map_option (\<lambda>r. if i = j then updated u r else r)) (getReminder (Resolves ()) i s)"
    by (rule getReminder_updateReminder [OF rows updateReminder_io [OF assms(2)]])
  then show ?thesis
    using assms(1) by (simp add: updated_def)
qed

lemma triggeredAt_perform:
  assumes "getReminder (Resolves ()) i s = Inr (Some r)" and "triggeredAt r = Some t"
    and "perform c s = Inr s'" and "\<not> deletes i c"
  shows "\<exists>r' t'. getReminder (Resolves ()) i s' = Inr (Some r') \<and> triggeredAt r' = Some t'"
proof (cases c)
  case (Add io now random36 created n)
  then obtain j where "addReminder io now random36 created n s = Inr (j, s')"
    using assms(3) by (cases "addReminder io now random36 created n s") auto
  then show ?thesis
    using getReminder_addReminder [OF assms(1)] assms(2) by blast
next
  case (Update io j u)
  then have "updateReminder io j u s = Inr s'" using assms(3) by simp
  from triggeredAt_updateReminder [OF assms(1) this] assms(2) show ?thesis
    by (cases "upd_triggeredAt u") (auto simp add: pick_optional_def)
next
  case (Delete io j)
  then show ?thesis
    using assms getReminder_deleteReminder [OF assms(1), of io j s'] by auto
next
  case (MarkTriggered io now j)
  then have "updateReminder io j (no_updates\<lparr>upd_triggeredAt := Defined now\<rparr>) s = Inr s'"
    using assms(3) by (simp add: markReminderAsTriggered_def)
  from triggeredAt_updateReminder [OF assms(1) this] assms(2) show ?thesis
    by (auto simp add: pick_optional_def)
qed

lemma triggeredAt_perform_all:
  assumes "perform_all cs s = Inr s'" and "\<forall>c\<in>set cs. \<not> deletes i c"
    and "getReminder (Resolves ()) i s = Inr (Some r)" and "triggeredAt r = Some t"
  shows "\<exists>r' t'. getReminder (Resolves ()) i s' = Inr (Some r') \<and> triggeredAt r' = Some t'"
  using assms
proof (induction cs arbitrary: s r t)
  case Nil
  then show ?case by simp
next
  case (Cons c cs)
  then obtain s1 where s1: "perform c s = Inr s1" "perform_all cs s1 = Inr s'"
    by (cases "perform c s") auto
  obtain r1 t1 where "getReminder (Resolves ()) i s1 = Inr (Some r1)" "triggeredAt r1 = Some t1"
    using triggeredAt_perform [OF Cons.prems(3,4) s1(1)] Cons.prems(2) by auto
  then show ?case
    using Cons.IH [OF s1(2)] Cons.prems(2) by auto
qed

lemma decimal_not_empty: "decimal n \<noteq> []"
  by (subst decimal.simps) simp

lemma int_toString_not_empty: "int_toString k \<noteq> []"
  by (simp add: int_toString_def decimal_not_empty)

lemma find_fresh: "i \<notin> set (map col_id rows) \<Longrightarrow> find (\<lambda>r. col_id r = i) rows = None"
  by (induction rows) auto

lemma or_null_if: "or_null v = (if v = Some [] then None else v)"
  by (cases v) (simp_all add: or_null_def)

lemma addReminder_fresh:
  assumes "db s = Some rows" and "int_toString now @ substr 2 9 random36 \<notin> set (map col_id rows)"
  shows "\<exists>s'. addReminder (Resolves ()) now random36 created reminder s
                = Inr (int_toString now @ substr 2 9 random36, s')"
  using assms by (simp add: addReminder_def sql_insert_def Let_def)

lemma addReminder_Inr:
  assumes "addReminder io now random36 created reminder s = Inr (i, s')"
  shows "i \<noteq> [] \<and>
         getReminder (Resolves ()) i s' =
           Inr (Some \<lparr>ident = i,
                      title = new_title reminder,
                      description = (if new_description reminder = Some [] then None
                                     else new_description reminder),
                      latitude = new_latitude reminder,
                      longitude = new_longitude reminder,
                      radius = new_radius reminder,
                      address = (if new_address reminder = Some [] then None
                                 else new_address reminder),
                      isActive = new_isActive reminder,
                      notificationTitle = new_notificationTitle reminder,
                      notificationBody = new_notificationBody reminder,
                      createdAt = created,
                      triggeredAt = None\<rparr>)"
proof -
  let ?i = "int_toString now @ substr 2 9 random36"
  obtain rows where rows: "db s = Some rows"
    using assms by (cases "db s") (simp_all add: addReminder_def)
  have i: "i = ?i" and fresh: "?i \<notin> set (map col_id rows)"
    using assms rows
    by (cases io; simp add: addReminder_def sql_insert_def Let_def split: if_splits)+
  obtain new where db': "db s' = Some (rows @ [new])"
    and new: "new = \<lparr>col_id = ?i,
                    col_title = new_title reminder,
                    col_description = or_null (new_description reminder),
                    col_latitude = new_latitude reminder,
                    col_longitude = new_longitude reminder,
                    col_radius = new_radius reminder,
                    col_address = or_null (new_address reminder),
                    col_isActive = (if new_isActive reminder then 1 else 0),
                    col_notificationTitle = new_notificationTitle reminder,
                    col_notificationBody = new_notificationBody reminder,
                    col_createdAt = created,
                    col_triggeredAt = None\<rparr>"
    using assms rows
    by (cases io) (auto simp add: addReminder_def sql_insert_def Let_def split: if_splits)
  have "find (\<lambda>r. col_id r = ?i) (rows @ [new]) = Some new"
    using find_fresh [OF fresh] new by (simp add: find_append_second)
  then have "getReminder (Resolves ()) i s' = Inr (Some (reminder_of_row new))"
    using db' i by (simp add: getReminder_find)
  moreover have "i \<noteq> []"
    using i int_toString_not_empty by simp
  ultimately show ?thesis
    by (simp add: new reminder_of_row_def or_null_if i)
qed

lemma example_id:
  "int_toString 1700000000000 @ substr 2 9 ''0.4fzyo82mvyr'' = ''17000000000004fzyo82mv''"
  by (simp add: int_toString_def substr_def decimal.simps digit_char_def)

lemma triggered_get:
  "getReminder (Resolves ()) ''r1'' triggered_store
     = Inr (Some (example_reminder\<lparr>triggeredAt := Some 1700000005000\<rparr>))"
  by (simp add: getReminder_def sql_select_by_id_def triggered_store_def example_row_def
      example_reminder_def reminder_of_row_def)

lemma triggered_mark:
  "markReminderAsTriggered (Resolves ()) 1700000009000 ''r1'' triggered_store
     = Inr \<lparr>db = Some [example_row\<lparr>col_triggeredAt := Some 1700000009000\<rparr>]\<rparr>"
  by (simp add: markReminderAsTriggered_def updateReminder_def Object_entries_def no_updates_def
      sql_update_def triggered_store_def example_row_def)

lemma triggered_calls:
  "perform_all [Update (Resolves ()) ''r1'' (no_updates\<lparr>upd_title := Defined ''Keys''\<rparr>),
                MarkTriggered (Resolves ()) 1700000009000 ''r1'',
                Delete (Resolves ()) ''r2''] triggered_store
     = Inr \<lparr>db = Some [example_row\<lparr>col_title := ''Keys'', col_triggeredAt := Some 1700000009000\<rparr>]\<rparr>"
  by (simp add: markReminderAsTriggered_def updateReminder_def Object_entries_def no_updates_def
      sql_update_def deleteReminder_def sql_delete_def triggered_store_def example_row_def)

section \<open>Facts about the services\<close>


lemma scheduleLocationNotification_Rejects:
  "scheduleLocationNotification (Rejects e) r w =
     (Inl e, print (console_error ''Failed to schedule notification:'' e) w)"
  by (simp add: scheduleLocationNotification_def scheduleNotificationAsync_def)



lemma example_world_get:
  "getReminder (Resolves ()) ''r1'' (database example_world) = Inr (Some example_reminder)"
  by (simp add: example_world_def example_get)

lemma toFixed_latitude: "toFixed 6 37.7749 = ''37.774900''"
proof -
  have n: "nat \<lfloor>\<bar>37.7749 :: real\<bar> * 10 ^ 6 + 1 / 2\<rfloor> = 37774900" by simp
  have d: "decimal 37774900 = ''37774900''" by (simp add: decimal.simps digit_char_def)
  show ?thesis unfolding toFixed_def Let_def n d by simp
qed

lemma toFixed_longitude: "toFixed 6 (- 122.4194) = ''-122.419400''"
proof -
  have n: "nat \<lfloor>\<bar>- 122.4194 :: real\<bar> * 10 ^ 6 + 1 / 2\<rfloor> = 122419400" by simp
  have d: "decimal 122419400 = ''122419400''" by (simp add: decimal.simps digit_char_def)
  show ?thesis unfolding toFixed_def Let_def n d by simp
qed










section \<open>Entering the region of an active reminder\<close>




section \<open>\<^verbatim>\<open>addReminder\<close>, then \<^verbatim>\<open>getReminder\<close>\<close>

text \<open>
  C2, as the code has it. On an initialized service whose table does not hold the
  generated identifier yet, \<^verbatim>\<open>addReminder\<close> succeeds when the engine accepts the
  \<^verbatim>\<open>INSERT\<close>; and whenever it returns an
  identifier \<open>i\<close>, that identifier is not empty and \<^verbatim>\<open>getReminder(i)\<close> returns the record
  made of \<open>i\<close>, the clock reading \<open>created\<close> as \<^verbatim>\<open>createdAt\<close>, no \<^verbatim>\<open>triggeredAt\<close>, and the
  fields given, except that a \<^verbatim>\<open>description\<close> or \<^verbatim>\<open>address\<close> given as the empty text is
  stored, and read back, as missing.
\<close>

theorem C2_create_then_get:
  "(db s = Some rows \<and> int_toString now @ substr 2 9 random36 \<notin> set (map col_id rows) \<longrightarrow>
      (\<exists>i s'. addReminder (Resolves ()) now random36 created reminder s = Inr (i, s')))
   \<and> (\<forall>i s'. addReminder io now random36 created reminder s = Inr (i, s') \<longrightarrow>
         i \<noteq> [] \<and>
         getReminder (Resolves ()) i s' =
           Inr (Some \<lparr>ident = i,
                      title = new_title reminder,
                      description = (if new_description reminder = Some [] then None
                                     else new_description reminder),
                      latitude = new_latitude reminder,
                      longitude = new_longitude reminder,
                      radius = new_radius reminder,
                      address = (if new_address reminder = Some [] then None
                                 else new_address reminder),
                      isActive = new_isActive reminder,
                      notificationTitle = new_notificationTitle reminder,
                      notificationBody = new_notificationBody reminder,
                      createdAt = created,
                      triggeredAt = None\<rparr>))"
  using addReminder_fresh addReminder_Inr by blast

theorem C2_create_then_get_witness:
  "db example_store = Some [example_row]
   \<and> int_toString 1700000000000 @ substr 2 9 ''0.4fzyo82mvyr'' = ''17000000000004fzyo82mv''
   \<and> (\<exists>s'. addReminder (Resolves ()) 1700000000000 ''0.4fzyo82mvyr'' 1700000000123
               (example_new\<lparr>new_description := Some ''On the shelf''\<rparr>) example_store
             = Inr (''17000000000004fzyo82mv'', s')
          \<and> getReminder (Resolves ()) ''17000000000004fzyo82mv'' s'
             = Inr (Some (example_reminder\<lparr>ident := ''17000000000004fzyo82mv'',
                                           description := Some ''On the shelf'',
                                           createdAt := 1700000000123\<rparr>)))"
proof -
  let ?n = "example_new\<lparr>new_description := Some ''On the shelf''\<rparr>"
  have h: "db example_store = Some [example_row]" by (simp add: example_store_def)
  have f: "int_toString 1700000000000 @ substr 2 9 ''0.4fzyo82mvyr'' \<notin> set (map col_id [example_row])"
    by (simp add: example_id example_row_def)
  note C2 = C2_create_then_get [of example_store "[example_row]" 1700000000000 "''0.4fzyo82mvyr''"
      1700000000123 ?n "Resolves ()"]
  obtain i s' where a: "addReminder (Resolves ()) 1700000000000 ''0.4fzyo82mvyr'' 1700000000123
      ?n example_store = Inr (i, s')"
    using C2 h f by blast
  then have i: "i = ''17000000000004fzyo82mv''"
    using h by (simp add: addReminder_def sql_insert_def Let_def example_id split: if_splits)
  have "getReminder (Resolves ()) i s'
          = Inr (Some (example_reminder\<lparr>ident := i, description := Some ''On the shelf'',
                                          createdAt := 1700000000123\<rparr>))"
    using C2 [THEN conjunct2, rule_format, OF a]
    by (simp add: example_new_def example_reminder_def)
  then show ?thesis
    using h a i example_id by simp
qed

text \<open>
  C2 as the claim words it fails for a \<^verbatim>\<open>description\<close> that is the empty text: the
  record read back has none.
\<close>

theorem C2_empty_description_counterexample:
  "addReminder (Resolves ()) 1700000000000 ''0.4fzyo82mvyr'' 1700000000000
     (example_new\<lparr>new_description := Some ''''\<rparr>) \<lparr>db = Some []\<rparr>
     = Inr (''17000000000004fzyo82mv'',
            \<lparr>db = Some [example_row\<lparr>col_id := ''17000000000004fzyo82mv''\<rparr>]\<rparr>)
   \<and> getReminder (Resolves ()) ''17000000000004fzyo82mv''
        \<lparr>db = Some [example_row\<lparr>col_id := ''17000000000004fzyo82mv''\<rparr>]\<rparr>
     = Inr (Some (example_reminder\<lparr>ident := ''17000000000004fzyo82mv''\<rparr>))
   \<and> description (example_reminder\<lparr>ident := ''17000000000004fzyo82mv''\<rparr>) = None
   \<and> new_description (example_new\<lparr>new_description := Some ''''\<rparr>) = Some ''''"
proof -
  have "addReminder (Resolves ()) 1700000000000 ''0.4fzyo82mvyr'' 1700000000000
     (example_new\<lparr>new_description := Some ''''\<rparr>) \<lparr>db = Some []\<rparr>
     = Inr (''17000000000004fzyo82mv'',
            \<lparr>db = Some [example_row\<lparr>col_id := ''17000000000004fzyo82mv''\<rparr>]\<rparr>)"
    by (simp add: addReminder_def sql_insert_def Let_def example_id example_new_def example_row_def
        or_null_def)
  moreover have "getReminder (Resolves ()) ''17000000000004fzyo82mv''
        \<lparr>db = Some [example_row\<lparr>col_id := ''17000000000004fzyo82mv''\<rparr>]\<rparr>
     = Inr (Some (example_reminder\<lparr>ident := ''17000000000004fzyo82mv''\<rparr>))"
    by (simp add: getReminder_def sql_select_by_id_def example_row_def
        example_reminder_def reminder_of_row_def)
  moreover have "description (example_reminder\<lparr>ident := ''17000000000004fzyo82mv''\<rparr>) = None"
    by (simp add: example_reminder_def)
  ultimately show ?thesis by simp
qed

section \<open>\<^verbatim>\<open>startGeofencing\<close> replaces the monitored regions\<close>

text \<open>
  C3, as the code has it. When location services are enabled and the platform accepts the
  call, the regions monitored afterwards are exactly the projections (identifier,
  latitude, longitude, radius) of the reminders given whose \<^verbatim>\<open>isActive\<close> is true, in
  place of whatever was monitored before; reminders with \<^verbatim>\<open>isActive\<close> false contribute
  none. When location services are not enabled, \<^verbatim>\<open>startGeofencing\<close> returns after a
  warning and the monitored regions stay as they were.
\<close>

theorem C3_startGeofencing_registers_active:
  "(isLocationServicesEnabled w \<longrightarrow>
      (\<exists>w'. startGeofencing (Resolves ()) reminders w = (Inr (), w')
           \<and> monitored w' = map region_of (filter isActive reminders)
           \<and> set (monitored w') = region_of ` {r \<in> set reminders. isActive r}))
   \<and> (\<not> isLocationServicesEnabled w \<longrightarrow>
      (\<exists>w'. startGeofencing started reminders w = (Inr (), w') \<and> monitored w' = monitored w))"
  by (auto simp add: startGeofencing_def startGeofencingAsync_def print_def Let_def)

theorem C3_startGeofencing_registers_active_witness:
  "isLocationServicesEnabled example_world
   \<and> (\<exists>w'. startGeofencing (Resolves ())
               [example_reminder, example_reminder\<lparr>ident := ''r2'', isActive := False\<rparr>]
               (example_world\<lparr>monitored := [\<lparr>region_identifier = ''r0'', region_latitude = 0,
                                                region_longitude = 0, region_radius = 10\<rparr>]\<rparr>)
             = (Inr (), w')
          \<and> monitored w' = [\<lparr>region_identifier = ''r1'', region_latitude = 37.7749,
                              region_longitude = - 122.4194, region_radius = 50\<rparr>])
   \<and> \<not> isLocationServicesEnabled disabled_world
   \<and> (\<exists>w'. startGeofencing (Resolves ()) [example_reminder] disabled_world = (Inr (), w')
          \<and> monitored w' = monitored disabled_world)"
proof -
  let ?w = "example_world\<lparr>monitored := [\<lparr>region_identifier = ''r0'', region_latitude = 0,
                                                region_longitude = 0, region_radius = 10\<rparr>]\<rparr>"
  have e: "isLocationServicesEnabled example_world" "isLocationServicesEnabled ?w"
    by (simp_all add: example_world_def)
  have d: "\<not> isLocationServicesEnabled disabled_world"
    by (simp add: disabled_world_def)
  have m: "map region_of (filter isActive
             [example_reminder, example_reminder\<lparr>ident := ''r2'', isActive := False\<rparr>])
           = [\<lparr>region_identifier = ''r1'', region_latitude = 37.7749,
               region_longitude = - 122.4194, region_radius = 50\<rparr>]"
    by (simp add: region_of_def example_reminder_def)
  obtain w1 where w1: "startGeofencing (Resolves ())
        [example_reminder, example_reminder\<lparr>ident := ''r2'', isActive := False\<rparr>] ?w = (Inr (), w1)"
      "monitored w1 = map region_of (filter isActive
        [example_reminder, example_reminder\<lparr>ident := ''r2'', isActive := False\<rparr>])"
    using e(2) C3_startGeofencing_registers_active [where w = ?w and reminders =
        "[example_reminder, example_reminder\<lparr>ident := ''r2'', isActive := False\<rparr>]"]
    by blast
  obtain w2 where w2: "startGeofencing (Resolves ()) [example_reminder] disabled_world = (Inr (), w2)"
      "monitored w2 = monitored disabled_world"
    using d C3_startGeofencing_registers_active [where w = disabled_world and started = "Resolves ()"
        and reminders = "[example_reminder]"]
    by blast
  show ?thesis
    using e(1) d w1 w2 unfolding m by blast
qed

text \<open>
  C3 as the claim words it, for every list of reminders whatever the state of the service,
  fails when location services are not enabled: the active reminder of the example is
  not registered.
\<close>

theorem C3_not_enabled_counterexample:
  "startGeofencing (Resolves ()) [example_reminder] disabled_world
     = (Inr (), print (console_warn [''Location services not enabled for geofencing'']) disabled_world)
   \<and> monitored (print (console_warn [''Location services not enabled for geofencing''])
                  disabled_world) = []
   \<and> map region_of (filter isActive [example_reminder])
     = [\<lparr>region_identifier = ''r1'', region_latitude = 37.7749,
         region_longitude = - 122.4194, region_radius = 50\<rparr>]"
  by (simp add: startGeofencing_def disabled_world_def example_world_def print_def region_of_def
      example_reminder_def)

section \<open>Entering a region without an active reminder\<close>

text \<open>
  C4. When the lookup finds no reminder under \<^verbatim>\<open>reminderId\<close>, or finds one whose
  \<^verbatim>\<open>isActive\<close> is false, \<^verbatim>\<open>handleGeofenceEnter\<close> returns normally and leaves everything
  as it was: no notification, no change of the store, nothing on the console, whatever
  the notification call or the update would have answered.
\<close>

theorem C4_event_dropped:
  assumes "getReminder looked_up reminderId (database w) = Inr None
           \<or> (\<exists>r. getReminder looked_up reminderId (database w) = Inr (Some r) \<and> \<not> isActive r)"
  shows "handleGeofenceEnter looked_up sent written now reminderId w = (Inr (), w)"
  using assms by (auto simp add: handleGeofenceEnter_def handleGeofenceEnter_try_def)

theorem C4_event_dropped_witness:
  "getReminder (Resolves ()) ''r9'' (database example_world) = Inr None
   \<and> handleGeofenceEnter (Resolves ()) (Resolves ''n1'') (Resolves ()) 1700000009000 ''r9''
        example_world = (Inr (), example_world)
   \<and> getReminder (Resolves ()) ''r1'' (database inactive_world)
        = Inr (Some (example_reminder\<lparr>isActive := False\<rparr>))
   \<and> handleGeofenceEnter (Resolves ()) (Resolves ''n1'') (Resolves ()) 1700000009000 ''r1''
        inactive_world = (Inr (), inactive_world)"
proof -
  have a: "getReminder (Resolves ()) ''r9'' (database example_world) = Inr None"
    by (simp add: getReminder_def sql_select_by_id_def example_world_def example_store_def
        example_row_def)
  have b: "getReminder (Resolves ()) ''r1'' (database inactive_world)
             = Inr (Some (example_reminder\<lparr>isActive := False\<rparr>))"
    by (simp add: getReminder_def sql_select_by_id_def inactive_world_def example_row_def
        example_reminder_def reminder_of_row_def)
  have c: "\<not> isActive (example_reminder\<lparr>isActive := False\<rparr>)" by simp
  show ?thesis
    using a b
      C4_event_dropped [OF disjI1, OF a]
      C4_event_dropped [OF disjI2, OF exI, OF conjI, OF b c]
    by simp
qed

section \<open>\<^verbatim>\<open>handleGeofenceEnter\<close> never throws\<close>

text \<open>
  C5. For every identifier, every state and every outcome of the lookup, of the
  notification call and of the update, \<^verbatim>\<open>handleGeofenceEnter\<close> returns normally; and
  whenever the body of its \<^verbatim>\<open>try\<close> throws an error, that error is the one written to the
  console by the \<^verbatim>\<open>catch\<close>, after which the state is as the body left it.
\<close>

theorem C5_handler_catches_every_error:
  "\<exists>w'. handleGeofenceEnter looked_up sent written now reminderId w = (Inr (), w')
        \<and> (\<forall>e w1. handleGeofenceEnter_try looked_up sent written now reminderId w = (Inl e, w1)
              \<longrightarrow> w' = print (console_error ''Error handling geofence enter:'' e) w1)"
  by (cases "handleGeofenceEnter_try looked_up sent written now reminderId w")
     (auto simp add: handleGeofenceEnter_def split: sum.splits)

theorem C5_handler_catches_every_error_witness:
  "handleGeofenceEnter_try (Resolves ()) (Resolves ''n1'') (Resolves ()) 1700000009000 ''r1'' cold_world
     = (Inl (Error ''Database not initialized''), cold_world)
   \<and> handleGeofenceEnter (Resolves ()) (Resolves ''n1'') (Resolves ()) 1700000009000 ''r1'' cold_world
     = (Inr (), print (console_error ''Error handling geofence enter:''
                        (Error ''Database not initialized'')) cold_world)
   \<and> handleGeofenceEnter_try (Resolves ()) (Rejects (Error ''denied'')) (Resolves ()) 1700000009000
        ''r1'' example_world
     = (Inl (Error ''denied''),
        print (console_error ''Failed to schedule notification:'' (Error ''denied'')) example_world)
   \<and> handleGeofenceEnter (Resolves ()) (Rejects (Error ''denied'')) (Resolves ()) 1700000009000
        ''r1'' example_world
     = (Inr (), print (console_error ''Error handling geofence enter:'' (Error ''denied''))
                 (print (console_error ''Failed to schedule notification:'' (Error ''denied''))
                    example_world))"
proof -
  have t1: "handleGeofenceEnter_try (Resolves ()) (Resolves ''n1'') (Resolves ()) 1700000009000 ''r1''
              cold_world = (Inl (Error ''Database not initialized''), cold_world)"
    by (simp add: handleGeofenceEnter_try_def getReminder_def cold_world_def databaseService_def
        not_initialized_def)
  have t2: "handleGeofenceEnter_try (Resolves ()) (Rejects (Error ''denied'')) (Resolves ())
              1700000009000 ''r1'' example_world
            = (Inl (Error ''denied''),
               print (console_error ''Failed to schedule notification:'' (Error ''denied''))
                 example_world)"
    by (simp add: handleGeofenceEnter_try_def example_world_get scheduleLocationNotification_Rejects
        example_reminder_def)
  show ?thesis
    using t1 t2
      C5_handler_catches_every_error [of "Resolves ()" "Resolves ''n1''" "Resolves ()"
        1700000009000 "''r1''" cold_world]
      C5_handler_catches_every_error [of "Resolves ()" "Rejects (Error ''denied'')" "Resolves ()"
        1700000009000 "''r1''" example_world]
    by auto
qed

section \<open>\<^verbatim>\<open>updateReminder\<close> applies the defined members\<close>



section \<open>\<^verbatim>\<open>triggeredAt\<close> stays set\<close>

text \<open>
  C7, as the code has it. Let the record \<open>i\<close> have \<^verbatim>\<open>triggeredAt\<close> set. After any sequence
  of writing calls that succeeds and does not delete \<open>i\<close>, the record is still there with
  \<^verbatim>\<open>triggeredAt\<close> set. \<^verbatim>\<open>markReminderAsTriggered(i)\<close> sets it to the clock reading of the
  call; \<^verbatim>\<open>updateReminder(i, u)\<close> sets it to the timestamp \<open>u\<close> defines, whichever that is,
  and keeps it when \<open>u\<close> defines none.
\<close>

theorem C7_triggeredAt_stays_set:
  assumes "getReminder (Resolves ()) i s = Inr (Some r)" and "triggeredAt r = Some t"
  shows "(\<forall>cs s'. perform_all cs s = Inr s' \<and> (\<forall>c\<in>set cs. \<not> deletes i c) \<longrightarrow>
            (\<exists>r' t'. getReminder (Resolves ()) i s' = Inr (Some r') \<and> triggeredAt r' = Some t'))
       \<and> (\<forall>io now s'. markReminderAsTriggered io now i s = Inr s' \<longrightarrow>
            (\<exists>r'. getReminder (Resolves ()) i s' = Inr (Some r') \<and> triggeredAt r' = Some now))
       \<and> (\<forall>io u s'. updateReminder io i u s = Inr s' \<longrightarrow>
            (\<exists>r'. getReminder (Resolves ()) i s' = Inr (Some r')
                 \<and> triggeredAt r' = pick_optional (upd_triggeredAt u) (Some t)))"
proof (intro conjI allI impI)
  fix cs s'
  assume "perform_all cs s = Inr s' \<and> (\<forall>c\<in>set cs. \<not> deletes i c)"
  then show "\<exists>r' t'. getReminder (Resolves ()) i s' = Inr (Some r') \<and> triggeredAt r' = Some t'"
    using triggeredAt_perform_all assms by blast
next
  fix io now s'
  assume "markReminderAsTriggered io now i s = Inr s'"
  then have "updateReminder io i (no_updates\<lparr>upd_triggeredAt := Defined now\<rparr>) s = Inr s'"
    by (simp add: markReminderAsTriggered_def)
  from triggeredAt_updateReminder [OF assms(1) this]
  show "\<exists>r'. getReminder (Resolves ()) i s' = Inr (Some r') \<and> triggeredAt r' = Some now"
    by (simp add: pick_optional_def)
next
  fix io u s'
  assume "updateReminder io i u s = Inr s'"
  from triggeredAt_updateReminder [OF assms(1) this] assms(2)
  show "\<exists>r'. getReminder (Resolves ()) i s' = Inr (Some r')
              \<and> triggeredAt r' = pick_optional (upd_triggeredAt u) (Some t)"
    by simp
qed

theorem C7_triggeredAt_stays_set_witness:
  "getReminder (Resolves ()) ''r1'' triggered_store
     = Inr (Some (example_reminder\<lparr>triggeredAt := Some 1700000005000\<rparr>))
   \<and> perform_all [Update (Resolves ()) ''r1'' (no_updates\<lparr>upd_title := Defined ''Keys''\<rparr>),
                  MarkTriggered (Resolves ()) 1700000009000 ''r1'',
                  Delete (Resolves ()) ''r2''] triggered_store
       = Inr \<lparr>db = Some [example_row\<lparr>col_title := ''Keys'', col_triggeredAt := Some 1700000009000\<rparr>]\<rparr>
   \<and> (\<exists>r' t'. getReminder (Resolves ()) ''r1''
                 \<lparr>db = Some [example_row\<lparr>col_title := ''Keys'', col_triggeredAt := Some 1700000009000\<rparr>]\<rparr>
               = Inr (Some r') \<and> triggeredAt r' = Some t')
   \<and> (\<exists>r'. getReminder (Resolves ()) ''r1''
              \<lparr>db = Some [example_row\<lparr>col_triggeredAt := Some 1700000009000\<rparr>]\<rparr> = Inr (Some r')
            \<and> triggeredAt r' = Some 1700000009000)"
proof -
  have t: "triggeredAt (example_reminder\<lparr>triggeredAt := Some 1700000005000\<rparr>) = Some 1700000005000"
    by simp
  note C7 = C7_triggeredAt_stays_set [OF triggered_get t]
  have d: "\<forall>c\<in>set [Update (Resolves ()) ''r1'' (no_updates\<lparr>upd_title := Defined ''Keys''\<rparr>),
                MarkTriggered (Resolves ()) 1700000009000 ''r1'',
                Delete (Resolves ()) ''r2'']. \<not> deletes ''r1'' c"
    by simp
  have "\<exists>r' t'. getReminder (Resolves ()) ''r1''
                 \<lparr>db = Some [example_row\<lparr>col_title := ''Keys'', col_triggeredAt := Some 1700000009000\<rparr>]\<rparr>
               = Inr (Some r') \<and> triggeredAt r' = Some t'"
    using C7 [THEN conjunct1, rule_format, OF conjI, OF triggered_calls d] .
  moreover have "\<exists>r'. getReminder (Resolves ()) ''r1''
              \<lparr>db = Some [example_row\<lparr>col_triggeredAt := Some 1700000009000\<rparr>]\<rparr> = Inr (Some r')
            \<and> triggeredAt r' = Some 1700000009000"
    using C7 [THEN conjunct2, THEN conjunct1, rule_format, OF triggered_mark] .
  ultimately show ?thesis
    using triggered_get triggered_calls by blast
qed

text \<open>
  C7 as the claim words it, that an update can only put a newer timestamp, fails: an
  update that defines an older \<^verbatim>\<open>triggeredAt\<close> replaces the newer one.
\<close>

theorem C7_older_timestamp_counterexample:
  "getReminder (Resolves ()) ''r1'' triggered_store
     = Inr (Some (example_reminder\<lparr>triggeredAt := Some 1700000005000\<rparr>))
   \<and> updateReminder (Resolves ()) ''r1'' (no_updates\<lparr>upd_triggeredAt := Defined 1600000000000\<rparr>)
       triggered_store
       = Inr \<lparr>db = Some [example_row\<lparr>col_triggeredAt := Some 1600000000000\<rparr>]\<rparr>
   \<and> getReminder (Resolves ()) ''r1'' \<lparr>db = Some [example_row\<lparr>col_triggeredAt := Some 1600000000000\<rparr>]\<rparr>
       = Inr (Some (example_reminder\<lparr>triggeredAt := Some 1600000000000\<rparr>))
   \<and> (1600000000000 :: timestamp) < 1700000005000"
proof -
  have "updateReminder (Resolves ()) ''r1'' (no_updates\<lparr>upd_triggeredAt := Defined 1600000000000\<rparr>)
          triggered_store
        = Inr \<lparr>db = Some [example_row\<lparr>col_triggeredAt := Some 1600000000000\<rparr>]\<rparr>"
    by (simp add: updateReminder_def Object_entries_def no_updates_def
        sql_update_def triggered_store_def example_row_def)
  moreover have "getReminder (Resolves ()) ''r1''
                   \<lparr>db = Some [example_row\<lparr>col_triggeredAt := Some 1600000000000\<rparr>]\<rparr>
                 = Inr (Some (example_reminder\<lparr>triggeredAt := Some 1600000000000\<rparr>))"
    by (simp add: getReminder_def sql_select_by_id_def example_row_def
        example_reminder_def reminder_of_row_def)
  ultimately show ?thesis
    using triggered_get by simp
qed

section \<open>The radius entered on the edit screen\<close>



section \<open>\<^verbatim>\<open>reverseGeocode\<close> falls back to the coordinates\<close>

text \<open>
  C9. \<^verbatim>\<open>reverseGeocode\<close> never throws; and when the platform's lookup rejects or resolves
  with an empty array, it returns the latitude fixed to 6 decimals, a comma and a space,
  and the longitude fixed to 6 decimals.
\<close>

theorem C9_reverseGeocode_falls_back:
  "(\<exists>a. fst (reverseGeocode looked_up lat lon w) = Inr a)
   \<and> (looked_up = Resolves [] \<or> (\<exists>e. looked_up = Rejects e) \<longrightarrow>
        fst (reverseGeocode looked_up lat lon w) = Inr (toFixed 6 lat @ '', '' @ toFixed 6 lon))"
  by (auto simp add: reverseGeocode_def reverseGeocode_try_def coordinates_text_def
      split: outcome.splits list.splits)

theorem C9_reverseGeocode_falls_back_witness:
  "fst (reverseGeocode (Rejects (Error ''network'')) 37.7749 (- 122.4194) example_world)
     = Inr ''37.774900, -122.419400''
   \<and> fst (reverseGeocode (Resolves []) 37.7749 (- 122.4194) example_world)
     = Inr ''37.774900, -122.419400''"
proof -
  have "fst (reverseGeocode (Rejects (Error ''network'')) 37.7749 (- 122.4194) example_world)
          = Inr (toFixed 6 37.7749 @ '', '' @ toFixed 6 (- 122.4194))"
    using C9_reverseGeocode_falls_back [where looked_up = "Rejects (Error ''network'')"
      and lat = "37.7749" and lon = "- 122.4194" and w = example_world]
    by blast
  moreover have "fst (reverseGeocode (Resolves []) 37.7749 (- 122.4194) example_world)
          = Inr (toFixed 6 37.7749 @ '', '' @ toFixed 6 (- 122.4194))"
    using C9_reverseGeocode_falls_back [where looked_up = "Resolves []"
      and lat = "37.7749" and lon = "- 122.4194" and w = example_world]
    by blast
  moreover have "toFixed 6 37.7749 @ '', '' @ toFixed 6 (- 122.4194) = ''37.774900, -122.419400''"
    unfolding toFixed_latitude toFixed_longitude by simp
  ultimately show ?thesis
    by (simp only:)
qed

section \<open>Calls on a service that is not initialized\<close>

text \<open>
  C10. With \<^verbatim>\<open>db\<close> still \<^verbatim>\<open>null\<close> (before \<^verbatim>\<open>initialize\<close> has opened the database),
  each of \<^verbatim>\<open>addReminder\<close>, \<^verbatim>\<open>getAllReminders\<close>, \<^verbatim>\<open>getReminder\<close>, \<^verbatim>\<open>updateReminder\<close>,
  \<^verbatim>\<open>deleteReminder\<close> and \<^verbatim>\<open>markReminderAsTriggered\<close> throws the error
  'Database not initialized', whatever its arguments and whatever the engine would have
  answered: none of them opens the database, returns not-found or does nothing. An
  \<^verbatim>\<open>initialize\<close> whose \<^verbatim>\<open>openDatabaseAsync\<close> rejects leaves \<^verbatim>\<open>db\<close> \<^verbatim>\<open>null\<close>.
\<close>

theorem C10_not_initialized_throws:
  assumes "db s = None"
  shows "addReminder io now random36 created reminder s = Inl (Error ''Database not initialized'')
       \<and> getAllReminders io s = Inl (Error ''Database not initialized'')
       \<and> getReminder io i s = Inl (Error ''Database not initialized'')
       \<and> updateReminder io i updates s = Inl (Error ''Database not initialized'')
       \<and> deleteReminder io i s = Inl (Error ''Database not initialized'')
       \<and> markReminderAsTriggered io t i s = Inl (Error ''Database not initialized'')
       \<and> db (snd (initialize (Rejects e) io s)) = None"
  using assms
  by (simp add: addReminder_def getAllReminders_def getReminder_def updateReminder_def
      deleteReminder_def markReminderAsTriggered_def not_initialized_def initialize_def)

theorem C10_not_initialized_throws_witness:
  "db databaseService = None
   \<and> addReminder (Resolves ()) 1700000000000 ''0.4fzyo82mvyr'' 1700000000000
        \<lparr>new_title = ''Grab keys'', new_description = None, new_latitude = 37.7749,
         new_longitude = - 122.4194, new_radius = 50, new_address = None, new_isActive = True,
         new_notificationTitle = ''Do not forget!'', new_notificationBody = ''Grab your keys'',
         new_triggeredAt = None\<rparr> databaseService = Inl (Error ''Database not initialized'')
   \<and> getAllReminders (Resolves ()) databaseService = Inl (Error ''Database not initialized'')
   \<and> getReminder (Resolves ()) ''r1'' databaseService = Inl (Error ''Database not initialized'')
   \<and> updateReminder (Resolves ()) ''r1'' no_updates databaseService
       = Inl (Error ''Database not initialized'')
   \<and> deleteReminder (Resolves ()) ''r1'' databaseService = Inl (Error ''Database not initialized'')
   \<and> markReminderAsTriggered (Resolves ()) 1700000000000 ''r1'' databaseService
       = Inl (Error ''Database not initialized'')
   \<and> db (snd (initialize (Rejects (Error ''disk'')) (Resolves ()) databaseService)) = None"
proof -
  have h: "db databaseService = None" by (simp add: databaseService_def)
  show ?thesis
    using h C10_not_initialized_throws [OF h, where io = "Resolves ()"] by simp
qed

end
